theory Spec2Isabelle
  imports Main
begin

section \<open>Python values used by the appfirewall.log parser\<close>

text \<open>
  The parser is Python 2 code: a \<open>str\<close> is a sequence of bytes (here \<open>string\<close>, a list
  of 8-bit characters) and \<open>unicode\<close> is a sequence of code points.
\<close>

type_synonym unicode = "nat list"

datatype exn = AttributeError | UnicodeDecodeError | ValueError | OverflowError | ParseException

subsection \<open>\<open>str.strip\<close> and \<open>str.lower\<close>\<close>

definition isspace :: "char \<Rightarrow> bool" where
  "isspace c = (of_char c \<in> {9, 10, 11, 12, 13, 32 :: nat})"

definition strip :: "string \<Rightarrow> string" where
  "strip s = rev (dropWhile isspace (rev (dropWhile isspace s)))"

definition lower_char :: "char \<Rightarrow> char" where
  "lower_char c =
     (let n = (of_char c :: nat) in if 65 \<le> n \<and> n \<le> 90 then char_of (n + 32) else c)"

definition lower :: "string \<Rightarrow> string" where
  "lower s = map lower_char s"

subsection \<open>\<open>str.decode('utf-8', errors)\<close>\<close>

text \<open>
  The decoder of CPython 2.7: a lead byte fixes the length of the sequence; a sequence
  that is cut short, has a wrong continuation byte or is over-long is an error spanning
  the bytes named by \<open>Malformed\<close>. The error handler then raises (\<open>strict\<close>), drops the
  bytes (\<open>ignore\<close>) or puts U+FFFD in their place (\<open>replace\<close>).
\<close>

datatype errors = strict | ignore | replace

datatype utf8_step = Decoded nat nat | Malformed nat

definition utf8_code_length :: "nat \<Rightarrow> nat" where
  "utf8_code_length b =
     (if b < 0x80 then 1 else if b < 0xC2 then 0 else if b < 0xE0 then 2
      else if b < 0xF0 then 3 else if b < 0xF5 then 4 else 0)"

definition is_cont :: "nat \<Rightarrow> bool" where
  "is_cont b = (0x80 \<le> b \<and> b < 0xC0)"

fun utf8_next :: "nat list \<Rightarrow> utf8_step" where
  "utf8_next [] = Malformed 1"
| "utf8_next (b0 # bs) =
     (if b0 < 0x80 then Decoded b0 1
      else let n = utf8_code_length b0 in
        if length (b0 # bs) < n then Malformed (1 + length (takeWhile is_cont bs))
        else if n = 2 then
          (case bs of
             s1 # _ \<Rightarrow>
               if \<not> is_cont s1 then Malformed 1
               else Decoded (b0 mod 32 * 64 + s1 mod 64) 2
           | _ \<Rightarrow> Malformed 1)
        else if n = 3 then
          (case bs of
             s1 # s2 # _ \<Rightarrow>
               if \<not> is_cont s1 \<or> \<not> is_cont s2 \<or> (b0 = 0xE0 \<and> s1 < 0xA0)
               then Malformed (if is_cont s1 then 2 else 1)
               else Decoded (b0 mod 16 * 4096 + s1 mod 64 * 64 + s2 mod 64) 3
           | _ \<Rightarrow> Malformed 1)
        else if n = 4 then
          (case bs of
             s1 # s2 # s3 # _ \<Rightarrow>
               if \<not> is_cont s1 \<or> \<not> is_cont s2 \<or> \<not> is_cont s3 \<or>
                  (b0 = 0xF0 \<and> s1 < 0x90) \<or> (b0 = 0xF4 \<and> s1 > 0x8F)
               then Malformed (if is_cont s1 then (if is_cont s2 then 3 else 2) else 1)
               else Decoded (b0 mod 8 * 262144 + s1 mod 64 * 4096 + s2 mod 64 * 64 + s3 mod 64) 4
           | _ \<Rightarrow> Malformed 1)
        else Malformed 1)"

lemma utf8_next_Decoded_pos: "utf8_next (b # bs) = Decoded cp n \<Longrightarrow> 0 < n"
  by (auto simp: Let_def split: if_splits list.splits)

lemma utf8_next_Malformed_pos: "utf8_next (b # bs) = Malformed k \<Longrightarrow> 0 < k"
  by (auto simp: Let_def split: if_splits list.splits)

function utf8_decode :: "errors \<Rightarrow> nat list \<Rightarrow> exn + unicode" where
  "utf8_decode h [] = Inr []"
| "utf8_decode h (b # bs) =
     (case utf8_next (b # bs) of
        Decoded cp n \<Rightarrow>
          (case utf8_decode h (drop n (b # bs)) of
             Inl e \<Rightarrow> Inl e
           | Inr u \<Rightarrow> Inr (cp # u))
      | Malformed k \<Rightarrow>
          (case h of
             strict \<Rightarrow> Inl UnicodeDecodeError
           | ignore \<Rightarrow> utf8_decode h (drop k (b # bs))
           | replace \<Rightarrow>
               (case utf8_decode h (drop k (b # bs)) of
                  Inl e \<Rightarrow> Inl e
                | Inr u \<Rightarrow> Inr (0xFFFD # u))))"
  by pat_completeness auto
termination
proof (relation "measure (\<lambda>(h, bs). length bs)")
  show "wf (measure (\<lambda>(h, bs). length bs))" by simp
next
  fix h :: errors and b :: nat and bs cp n
  assume "utf8_next (b # bs) = Decoded cp n"
  then have "0 < n" by (rule utf8_next_Decoded_pos)
  then show "((h, drop n (b # bs)), (h, b # bs)) \<in> measure (\<lambda>(h, bs). length bs)"
    by (cases n) auto
next
  fix h :: errors and b :: nat and bs k
  assume "utf8_next (b # bs) = Malformed k"
  then have "0 < k" by (rule utf8_next_Malformed_pos)
  then show "((h, drop k (b # bs)), (h, b # bs)) \<in> measure (\<lambda>(h, bs). length bs)"
    by (cases k) auto
next
  fix h :: errors and b :: nat and bs k
  assume "utf8_next (b # bs) = Malformed k"
  then have "0 < k" by (rule utf8_next_Malformed_pos)
  then show "((h, drop k (b # bs)), (h, b # bs)) \<in> measure (\<lambda>(h, bs). length bs)"
    by (cases k) auto
qed

definition decode :: "string \<Rightarrow> errors \<Rightarrow> exn + unicode" where
  "decode s h = utf8_decode h (map of_char s)"

section \<open>pyparsing: the matching rules the grammar relies on\<close>

text \<open>
  A parser element takes the text still to be read and returns the matched token with the
  remaining text, or \<open>None\<close> where pyparsing raises \<open>ParseException\<close>. \<open>Word\<close> and
  \<open>Literal\<close> skip leading white space first; \<open>CharsNotIn\<close> does not; \<open>SkipTo(lineEnd)\<close>
  takes over the white space characters of \<open>lineEnd\<close>, which exclude the newline.
\<close>

definition DEFAULT_WHITE_CHARS :: string where
  "DEFAULT_WHITE_CHARS = [CHR '' '', CHR 0x0A, CHR 0x09, CHR 0x0D]"

definition preParse :: "string \<Rightarrow> string \<Rightarrow> string" where
  "preParse whiteChars s = dropWhile (\<lambda>c. c \<in> set whiteChars) s"

definition nums :: "char \<Rightarrow> bool" where
  "nums c = (48 \<le> (of_char c :: nat) \<and> (of_char c :: nat) \<le> 57)"

definition uppercase :: "char \<Rightarrow> bool" where
  "uppercase c = (65 \<le> (of_char c :: nat) \<and> (of_char c :: nat) \<le> 90)"

definition lowercase :: "char \<Rightarrow> bool" where
  "lowercase c = (97 \<le> (of_char c :: nat) \<and> (of_char c :: nat) \<le> 122)"

definition printables :: "char \<Rightarrow> bool" where
  "printables c = (33 \<le> (of_char c :: nat) \<and> (of_char c :: nat) \<le> 126)"

text \<open>
  \<open>Word(initChars, bodyChars, min, max, exact)\<close>, with 0 for a bound that is not given:
  one character of \<open>initChars\<close>, then characters of \<open>bodyChars\<close> up to the maximal
  length; the match fails when it is shorter than the minimal length, or when \<open>max\<close> was
  given and a further body character follows.
\<close>

definition Word ::
  "(char \<Rightarrow> bool) \<Rightarrow> (char \<Rightarrow> bool) \<Rightarrow> nat \<Rightarrow> nat \<Rightarrow> nat \<Rightarrow> string \<Rightarrow> (string \<times> string) option" where
  "Word initChars bodyChars mn mx exact s =
     (case preParse DEFAULT_WHITE_CHARS s of
        [] \<Rightarrow> None
      | c # cs \<Rightarrow>
          if \<not> initChars c then None
          else
            (let minLen = (if 0 < exact then exact else mn);
                 run = takeWhile bodyChars cs;
                 body = (if 0 < exact then take (exact - 1) run
                         else if 0 < mx then take (mx - 1) run else run);
                 rest = drop (length body) cs
             in if 1 + length body < minLen then None
                else if 0 < mx \<and> (case rest of [] \<Rightarrow> False | x # _ \<Rightarrow> bodyChars x) then None
                else Some (c # body, rest)))"

definition Literal :: "string \<Rightarrow> string \<Rightarrow> (string \<times> string) option" where
  "Literal matchString s =
     (let s' = preParse DEFAULT_WHITE_CHARS s
      in if take (length matchString) s' = matchString
         then Some (matchString, drop (length matchString) s') else None)"

definition CharsNotIn :: "string \<Rightarrow> string \<Rightarrow> (string \<times> string) option" where
  "CharsNotIn notChars s =
     (let tok = takeWhile (\<lambda>c. c \<notin> set notChars) s
      in if tok = [] then None else Some (tok, drop (length tok) s))"

definition SkipTo_lineEnd :: "string \<Rightarrow> (string \<times> string) option" where
  "SkipTo_lineEnd s =
     (let s' = preParse [CHR '' '', CHR 0x09, CHR 0x0D] s;
          tok = takeWhile (\<lambda>c. c \<noteq> CHR 0x0A) s'
      in Some (tok, drop (length tok) s'))"

text \<open>
  \<open>e1 + e2\<close> (pyparsing's \<open>And\<close>): match \<open>e1\<close>, then \<open>e2\<close> on the text that is left; the
  second argument receives the token of the first.
\<close>

definition And ::
  "(string \<Rightarrow> ('a \<times> string) option) \<Rightarrow> ('a \<Rightarrow> string \<Rightarrow> ('b \<times> string) option) \<Rightarrow>
   string \<Rightarrow> ('b \<times> string) option" where
  "And e1 e2 s = (case e1 s of None \<Rightarrow> None | Some (tok, r) \<Rightarrow> e2 tok r)"

definition tokens :: "'a \<Rightarrow> string \<Rightarrow> ('a \<times> string) option" where
  "tokens res s = Some (res, s)"

text \<open>\<open>parseString\<close> expands tabs before it matches (\<open>str.expandtabs\<close>, tab stops every 8).\<close>

fun expandtabs_from :: "nat \<Rightarrow> string \<Rightarrow> string" where
  "expandtabs_from col [] = []"
| "expandtabs_from col (c # cs) =
     (if c = CHR 0x09 then replicate (8 - col mod 8) (CHR '' '') @ expandtabs_from 0 cs
      else if c = CHR 0x0A \<or> c = CHR 0x0D then c # expandtabs_from 0 cs
      else c # expandtabs_from ((col + 1) mod 8) cs)"

definition expandtabs :: "string \<Rightarrow> string" where
  "expandtabs s = expandtabs_from 0 s"

definition parseString :: "(string \<Rightarrow> ('a \<times> string) option) \<Rightarrow> string \<Rightarrow> exn + 'a" where
  "parseString expr instring =
     (case expr (expandtabs instring) of
        None \<Rightarrow> Inl ParseException
      | Some (res, _) \<Rightarrow> Inr res)"

section \<open>The two line structures\<close>

text \<open>
  The parse result of a line, read by attribute. An attribute that the matched grammar
  does not name reads as the empty string, so the result of \<open>REPEATED_LINE\<close> has empty
  \<open>computer_name\<close>, \<open>agent\<close>, \<open>status\<close> and \<open>action\<close>.
\<close>

record "structure" =
  month :: string
  day :: int
  time :: "int list"
  computer_name :: string
  agent :: string
  status :: string
  process_name :: string
  action :: string

definition PyParseIntCast :: "string \<Rightarrow> int" where
  "PyParseIntCast tok = foldl (\<lambda>n c. 10 * n + (int (of_char c) - 48)) 0 tok"

text \<open>
  Modelled from the spec: \<open>text_parser.PyparsingConstants\<close> is not part of the given
  sources. \<open>MONTH\<close> is the three-letter month token (a capital and two small letters),
  \<open>ONE_OR_TWO_DIGITS\<close> the one/two-digit day and \<open>TIME\<close> the group \<open>HH:MM:SS\<close>; the digit
  tokens are cast to integers.
\<close>

definition MONTH :: "string \<Rightarrow> (string \<times> string) option" where
  "MONTH = Word uppercase lowercase 1 0 3"

definition TWO_DIGITS :: "string \<Rightarrow> (int \<times> string) option" where
  "TWO_DIGITS s = map_option (\<lambda>(tok, r). (PyParseIntCast tok, r)) (Word nums nums 1 0 2 s)"

definition ONE_OR_TWO_DIGITS :: "string \<Rightarrow> (int \<times> string) option" where
  "ONE_OR_TWO_DIGITS s = map_option (\<lambda>(tok, r). (PyParseIntCast tok, r)) (Word nums nums 1 2 0 s)"

definition TIME :: "string \<Rightarrow> (int list \<times> string) option" where
  "TIME =
     And TWO_DIGITS (\<lambda>hours.
     And (Literal '':'') (\<lambda>_.
     And TWO_DIGITS (\<lambda>minutes.
     And (Literal '':'') (\<lambda>_.
     And TWO_DIGITS (\<lambda>seconds.
     tokens [hours, minutes, seconds])))))"

definition FIREWALL_LINE :: "string \<Rightarrow> (structure \<times> string) option" where
  "FIREWALL_LINE =
     And MONTH (\<lambda>mon.
     And ONE_OR_TWO_DIGITS (\<lambda>d.
     And TIME (\<lambda>t.
     And (Word printables printables 1 0 0) (\<lambda>cn.
     And (Word printables printables 1 0 0) (\<lambda>ag.
     And (Literal ''<'') (\<lambda>_.
     And (CharsNotIn ''>'') (\<lambda>st.
     And (Literal ''>:'') (\<lambda>_.
     And (CharsNotIn '':'') (\<lambda>pn.
     And (Literal '':'') (\<lambda>_.
     And SkipTo_lineEnd (\<lambda>ac.
     tokens \<lparr>month = mon, day = d, time = t, computer_name = cn, agent = ag,
             status = st, process_name = pn, action = ac\<rparr>)))))))))))"

definition REPEATED_LINE :: "string \<Rightarrow> (structure \<times> string) option" where
  "REPEATED_LINE =
     And MONTH (\<lambda>mon.
     And ONE_OR_TWO_DIGITS (\<lambda>d.
     And TIME (\<lambda>t.
     And (Literal ''---'') (\<lambda>_.
     And (CharsNotIn ''---'') (\<lambda>pn.
     And (Literal ''---'') (\<lambda>_.
     tokens \<lparr>month = mon, day = d, time = t, computer_name = [], agent = [],
             status = [], process_name = pn, action = []\<rparr>))))))"

definition LINE_STRUCTURES :: "(string \<times> (string \<Rightarrow> (structure \<times> string) option)) list" where
  "LINE_STRUCTURES = [(''logline'', FIREWALL_LINE), (''repeated'', REPEATED_LINE)]"

section \<open>Format detection\<close>

definition VerifyStructure :: "string \<Rightarrow> bool" where
  "VerifyStructure line =
     (case parseString FIREWALL_LINE line of
        Inl e \<Rightarrow> False
      | Inr line' \<Rightarrow>
          if action line' \<noteq> ''creating /var/log/appfirewall.log'' \<or> status line' \<noteq> ''Error''
          then False else True)"

section \<open>timelib and the calendar\<close>

text \<open>
  Modelled from the spec: \<open>timelib.MONTH_DICT\<close> is not part of the given sources. It maps
  the lower-case three-letter month token to the month number 1..12.
\<close>

definition MONTH_DICT :: "string \<rightharpoonup> int" where
  "MONTH_DICT = map_of
     [(''jan'', 1), (''feb'', 2), (''mar'', 3), (''apr'', 4), (''may'', 5), (''jun'', 6),
      (''jul'', 7), (''aug'', 8), (''sep'', 9), (''oct'', 10), (''nov'', 11), (''dec'', 12)]"

definition is_leap :: "int \<Rightarrow> bool" where
  "is_leap y = (y mod 4 = 0 \<and> (y mod 100 \<noteq> 0 \<or> y mod 400 = 0))"

definition days_in_month :: "int \<Rightarrow> int \<Rightarrow> int" where
  "days_in_month y m =
     (if m = 2 then (if is_leap y then 29 else 28)
      else if m = 4 \<or> m = 6 \<or> m = 9 \<or> m = 11 then 30 else 31)"

definition days_before_year :: "int \<Rightarrow> int" where
  "days_before_year y = (y - 1) * 365 + (y - 1) div 4 - (y - 1) div 100 + (y - 1) div 400"

definition days_before_month :: "int \<Rightarrow> int \<Rightarrow> int" where
  "days_before_month y m =
     [0, 31, 59, 90, 120, 151, 181, 212, 243, 273, 304, 334] ! nat (m - 1) +
     (if 2 < m \<and> is_leap y then 1 else 0)"

definition toordinal :: "int \<Rightarrow> int \<Rightarrow> int \<Rightarrow> int" where
  "toordinal y m d = days_before_year y + days_before_month y m + d"

definition valid_datetime :: "int \<Rightarrow> int \<Rightarrow> int \<Rightarrow> int \<Rightarrow> int \<Rightarrow> int \<Rightarrow> bool" where
  "valid_datetime y m d hh mm ss =
     (1 \<le> y \<and> y \<le> 9999 \<and> 1 \<le> m \<and> m \<le> 12 \<and> 1 \<le> d \<and> d \<le> days_in_month y m \<and>
      0 \<le> hh \<and> hh \<le> 23 \<and> 0 \<le> mm \<and> mm \<le> 59 \<and> 0 \<le> ss \<and> ss \<le> 59)"

text \<open>
  Modelled from the spec: \<open>timelib.Timestamp.FromTimeParts\<close> (the spec's TimestampComposer)
  is not part of the given sources. It maps (year, month, day, hour, minute, second) to
  the absolute instant, the number of microseconds since January 1, 1970, 00:00:00 UTC,
  and returns the failure sentinel 0 instead of raising when the components do not form
  a valid calendar date and time. A month that \<open>MONTH_DICT\<close> does not know is \<open>None\<close>.
\<close>

definition FromTimeParts :: "int \<Rightarrow> int option \<Rightarrow> int \<Rightarrow> int \<Rightarrow> int \<Rightarrow> int \<Rightarrow> int" where
  "FromTimeParts y mo d hh mm ss =
     (case mo of
        None \<Rightarrow> 0
      | Some m \<Rightarrow>
          if valid_datetime y m d hh mm ss
          then (((toordinal y m d - 719163) * 86400 + hh * 3600 + mm * 60 + ss) * 1000000)
          else 0)"

section \<open>What the parser reads from its surroundings\<close>

text \<open>
  The parser mediator carries the year hint and the timezone. The stat object of the file
  entry may or may not have the attributes \<open>crtime\<close> (creation time), \<open>mtime\<close> (modification
  time) and \<open>ctime\<close> (change time). The system clock and
  \<open>datetime.datetime.fromtimestamp\<close> are read through the record \<open>system\<close>:
  \<open>fromtimestamp t tz\<close> is the year of the resulting date, or the exception that Python
  raises: \<open>ValueError\<close> for a time outside the years 1 to 9999, and \<open>OverflowError\<close> where
  only the shift into the timezone leaves them.
\<close>

record 'tz parser_mediator =
  year :: int
  timezone :: 'tz

record stat =
  crtime :: "int option"
  mtime :: "int option"
  ctime :: "int option"

record 'tz system =
  GetStat :: stat
  GetCurrentYear :: int
  fromtimestamp :: "int \<Rightarrow> 'tz \<Rightarrow> exn + int"

section \<open>Events\<close>

datatype EventTimestamp = ADDED_TIME

record event =
  event_timestamp :: int
  event_timestamp_desc :: EventTimestamp
  event_action :: unicode
  event_agent :: string
  event_computer_name :: string
  event_process_name :: string
  event_status :: string

definition MacAppFirewallLogEvent :: "int \<Rightarrow> structure \<Rightarrow> string \<Rightarrow> unicode \<Rightarrow> event" where
  "MacAppFirewallLogEvent timestamp st pname act =
     \<lparr>event_timestamp = timestamp, event_timestamp_desc = ADDED_TIME,
      event_action = act, event_agent = agent st,
      event_computer_name = computer_name st, event_process_name = pname,
      event_status = status st\<rparr>"

section \<open>The parser object and its record processing\<close>

text \<open>
  The attributes \<open>_year_use\<close>, \<open>_last_month\<close> and \<open>previous_structure\<close> of the parser
  object, and their values after \<open>__init__\<close>. In Python 2, \<open>not x\<close> holds for \<open>None\<close> and
  for 0, and \<open>None\<close> is below every integer.
\<close>

record parser =
  year_use :: int
  last_month :: "int option"
  previous_structure :: "structure option"

definition init :: parser where
  "init = \<lparr>year_use = 0, last_month = None, previous_structure = None\<rparr>"


definition py_not :: "int option \<Rightarrow> bool" where
  "py_not x = (case x of None \<Rightarrow> True | Some n \<Rightarrow> n = 0)"

definition py_less :: "int option \<Rightarrow> int option \<Rightarrow> bool" where
  "py_less a b =
     (case (a, b) of
        (None, None) \<Rightarrow> False
      | (None, Some _) \<Rightarrow> True
      | (Some _, None) \<Rightarrow> False
      | (Some x, Some y) \<Rightarrow> x < y)"

definition getattr :: "int option \<Rightarrow> int \<Rightarrow> int" where
  "getattr attr dflt = (case attr of None \<Rightarrow> dflt | Some v \<Rightarrow> v)"

text \<open>
  \<open>_GetTimestamp\<close> (lines 189 to 211): unpacking a time that has not exactly three
  elements raises \<open>ValueError\<close>, which the method turns into the timestamp 0.
\<close>

definition GetTimestamp :: "int \<Rightarrow> int option \<Rightarrow> int \<Rightarrow> int list \<Rightarrow> int" where
  "GetTimestamp d mo y t =
     (case t of
        [hour, minute, second] \<Rightarrow> FromTimeParts y mo d hour minute second
      | _ \<Rightarrow> 0)"

text \<open>
  \<open>_GetYear\<close> (lines 213 to 232). Only \<open>ValueError\<close> is caught (lines 225 to 231); any
  other exception of \<open>fromtimestamp\<close> leaves the method.
\<close>

definition GetYear :: "'tz system \<Rightarrow> stat \<Rightarrow> 'tz \<Rightarrow> exn + int" where
  "GetYear sys st tz =
     (let t = getattr (crtime st) 0;
          t = (if t = 0 then getattr (ctime st) 0 else t)
      in if t = 0 then Inr (GetCurrentYear sys)
         else (case fromtimestamp sys t tz of
                 Inl ValueError \<Rightarrow> Inr (GetCurrentYear sys)
               | Inl e \<Rightarrow> Inl e
               | Inr y \<Rightarrow> Inr y))"

text \<open>
  \<open>_ParseLogLine\<close> (lines 131 to 187). The result is the parser object as the call leaves
  it, and either the exception that leaves the method or the events handed to
  \<open>ProduceEvent\<close>. An exception that leaves \<open>_GetYear\<close> leaves the method too; reading
  \<open>structure.action\<close> while \<open>structure\<close> is \<open>None\<close> raises \<open>AttributeError\<close>; assignments made
  before an exception stay.
\<close>

definition ParseLogLine ::
  "'tz parser_mediator \<Rightarrow> 'tz system \<Rightarrow> parser \<Rightarrow> structure \<Rightarrow> string \<Rightarrow>
   parser \<times> (exn + event list)" where
  "ParseLogLine mediator sys self st key =
     (let self = (if year_use self = 0 then self\<lparr>year_use := year mediator\<rparr> else self)
      in case (if year_use self = 0
               then (case GetYear sys (GetStat sys) (timezone mediator) of
                       Inl e \<Rightarrow> Inl e
                     | Inr y \<Rightarrow>
                         Inr (let self = self\<lparr>year_use := y\<rparr>
                              in if year_use self = 0 then self\<lparr>year_use := GetCurrentYear sys\<rparr>
                                 else self))
               else Inr self) of
           Inl e \<Rightarrow> (self, Inl e)
         | Inr self \<Rightarrow>
     (let mo = MONTH_DICT (lower (month st));
          self = (if py_not (last_month self) then self\<lparr>last_month := mo\<rparr> else self);
          self = (if py_less mo (last_month self) then self\<lparr>year_use := year_use self + 1\<rparr>
                  else self);
          timestamp = GetTimestamp (day st) mo (year_use self) (time st)
      in if timestamp = 0 then (self, Inr [])
         else
           (let self = self\<lparr>last_month := mo\<rparr>;
                self = (if key = ''logline'' then self\<lparr>previous_structure := Some st\<rparr>
                        else self)
            in case (if key = ''logline'' then Some st else previous_structure self) of
                 None \<Rightarrow> (self, Inl AttributeError)
               | Some st' \<Rightarrow>
                   (case (case decode (action st') strict of
                            Inl UnicodeDecodeError \<Rightarrow> decode (action st') ignore
                          | r \<Rightarrow> r) of
                      Inl e \<Rightarrow> (self, Inl e)
                    | Inr act \<Rightarrow>
                        (self, Inr [MacAppFirewallLogEvent timestamp st'
                                      (strip (process_name st')) act])))))"

definition ParseRecord ::
  "'tz parser_mediator \<Rightarrow> 'tz system \<Rightarrow> parser \<Rightarrow> string \<Rightarrow> structure \<Rightarrow>
   parser \<times> (exn + event list)" where
  "ParseRecord mediator sys self key st =
     (if key \<in> set [''logline'', ''repeated''] then ParseLogLine mediator sys self st key
      else (self, Inr []))"

section \<open>Processing the lines of a file\<close>

text \<open>
  Modelled from the spec: the host's loop over the lines of a file (\<open>text_parser\<close>) is not
  part of the given sources. A line is matched against \<open>LINE_STRUCTURES\<close> in order, the
  full record first, then the repeated marker; the first structure that matches is passed
  to \<open>ParseRecord\<close> with its key, and a line that matches neither is skipped. Lines are
  processed strictly in order by one parser object; an exception ends the processing.
\<close>

fun match_structures ::
  "(string \<times> (string \<Rightarrow> (structure \<times> string) option)) list \<Rightarrow> string \<Rightarrow>
   (string \<times> structure) option" where
  "match_structures [] line = None"
| "match_structures ((key, expr) # rest) line =
     (case parseString expr line of
        Inl e \<Rightarrow> match_structures rest line
      | Inr st \<Rightarrow> Some (key, st))"

definition process_line ::
  "'tz parser_mediator \<Rightarrow> 'tz system \<Rightarrow> parser \<Rightarrow> string \<Rightarrow> parser \<times> (exn + event list)" where
  "process_line mediator sys self line =
     (case match_structures LINE_STRUCTURES line of
        None \<Rightarrow> (self, Inr [])
      | Some (key, st) \<Rightarrow> ParseRecord mediator sys self key st)"

fun process_lines ::
  "'tz parser_mediator \<Rightarrow> 'tz system \<Rightarrow> parser \<Rightarrow> string list \<Rightarrow>
   parser \<times> event list \<times> exn option" where
  "process_lines mediator sys self [] = (self, [], None)"
| "process_lines mediator sys self (line # rest) =
     (case process_line mediator sys self line of
        (self', Inl e) \<Rightarrow> (self', [], Some e)
      | (self', Inr evs) \<Rightarrow>
          (case process_lines mediator sys self' rest of
             (self'', evs', r) \<Rightarrow> (self'', evs @ evs', r)))"

section \<open>The year resolution, in the words of the specification\<close>

text \<open>
  The usable file time: the creation time when the stat object has a nonzero one,
  otherwise the \<open>ctime\<close> attribute when that is present and nonzero.
\<close>

definition file_time :: "stat \<Rightarrow> int option" where
  "file_time st =
     (let usable = (\<lambda>attr. case attr of Some t \<Rightarrow> if t \<noteq> 0 then Some t else None | None \<Rightarrow> None)
      in case usable (crtime st) of
           Some t \<Rightarrow> Some t
         | None \<Rightarrow> usable (ctime st))"

text \<open>
  First success wins: (1) the year hint, if nonzero; (2) the file time converted to a
  calendar year in the supplied timezone; (3) the current year of the system clock, also
  where the conversion of the file time fails.
\<close>

definition YearResolver :: "'tz parser_mediator \<Rightarrow> 'tz system \<Rightarrow> int" where
  "YearResolver mediator sys =
     (if year mediator \<noteq> 0 then year mediator
      else case file_time (GetStat sys) of
             None \<Rightarrow> GetCurrentYear sys
           | Some t \<Rightarrow>
               (case fromtimestamp sys t (timezone mediator) of
                  Inl e \<Rightarrow> GetCurrentYear sys
                | Inr y \<Rightarrow> if y \<noteq> 0 then y else GetCurrentYear sys))"

section \<open>Notions used in the statements\<close>

text \<open>
  The year in use once lines 140 to 149 of \<open>_ParseLogLine\<close> have run: the resolution is
  consulted only while the parser's year is still 0.
\<close>

definition year_in_use :: "'tz parser_mediator \<Rightarrow> 'tz system \<Rightarrow> parser \<Rightarrow> int" where
  "year_in_use mediator sys self =
     (if year_use self = 0 then YearResolver mediator sys else year_use self)"

text \<open>
  Lines 140 to 149 return, rather than raise: the year is already set, or the hint is
  nonzero, or there is no usable file time, or its conversion yields a date or raises
  the \<open>ValueError\<close> that \<open>_GetYear\<close> catches.
\<close>

definition resolution_returns :: "'tz parser_mediator \<Rightarrow> 'tz system \<Rightarrow> parser \<Rightarrow> bool" where
  "resolution_returns mediator sys self =
     (year_use self \<noteq> 0 \<or> year mediator \<noteq> 0 \<or>
      (case file_time (GetStat sys) of
         None \<Rightarrow> True
       | Some t \<Rightarrow>
           (case fromtimestamp sys t (timezone mediator) of
              Inl e \<Rightarrow> e = ValueError
            | Inr y \<Rightarrow> True)))"

text \<open>
  The text of the action as the event carries it (lines 175 to 180): the strict decoding
  when the bytes are valid UTF-8, otherwise the decoding that ignores what is invalid.
\<close>

definition permissive :: "string \<Rightarrow> unicode" where
  "permissive a =
     (case decode a strict of
        Inr u \<Rightarrow> u
      | Inl _ \<Rightarrow> (case decode a ignore of Inr u \<Rightarrow> u | Inl _ \<Rightarrow> []))"

definition emit :: "int \<Rightarrow> structure \<Rightarrow> exn + event list" where
  "emit timestamp st =
     Inr [MacAppFirewallLogEvent timestamp st (strip (process_name st)) (permissive (action st))]"

section \<open>A concrete file and its surroundings\<close>

text \<open>
  A timezone with a fixed offset from UTC, in seconds, and the calendar year of a POSIX
  time in it (the proleptic Gregorian calendar, as \<open>datetime\<close> has it). The conversion
  first makes the UTC date, which raises \<open>ValueError\<close> outside the years 1 to 9999, and
  then adds the offset, which raises \<open>OverflowError\<close> when the sum leaves them.
\<close>

definition year_of_days :: "int \<Rightarrow> int" where
  "year_of_days days =
     (let z = days + 719468;
          era = z div 146097;
          doe = z mod 146097;
          yoe = (doe - doe div 1460 + doe div 36524 - doe div 146096) div 365;
          doy = doe - (365 * yoe + yoe div 4 - yoe div 100);
          mp = (5 * doy + 2) div 153
      in yoe + era * 400 + (if mp < 10 then 0 else 1))"

definition fixed_offset_fromtimestamp :: "int \<Rightarrow> int \<Rightarrow> exn + int" where
  "fixed_offset_fromtimestamp t tz =
     (let utc = year_of_days (t div 86400);
          y = year_of_days ((t + tz) div 86400)
      in if utc < 1 \<or> 9999 < utc then Inl ValueError
         else if y < 1 \<or> 9999 < y then Inl OverflowError
         else Inr y)"

definition hint_2013 :: "int parser_mediator" where
  "hint_2013 = \<lparr>year = 2013, timezone = 0\<rparr>"

definition no_hint :: "int parser_mediator" where
  "no_hint = \<lparr>year = 0, timezone = 3600\<rparr>"

definition hint_1970 :: "int parser_mediator" where
  "hint_1970 = \<lparr>year = 1970, timezone = 0\<rparr>"

definition host :: "int system" where
  "host = \<lparr>GetStat = \<lparr>crtime = None, mtime = Some 1262304000, ctime = Some 1388534399\<rparr>,
           GetCurrentYear = 2015, fromtimestamp = fixed_offset_fromtimestamp\<rparr>"

definition other_host :: "int system" where
  "other_host = \<lparr>GetStat = \<lparr>crtime = Some 946684800, mtime = None, ctime = None\<rparr>,
                 GetCurrentYear = 1999, fromtimestamp = (\<lambda>t tz. Inl ValueError)\<rparr>"

definition late_host :: "int system" where
  "late_host = \<lparr>GetStat = \<lparr>crtime = Some 253402300799, mtime = None, ctime = None\<rparr>,
                GetCurrentYear = 2015, fromtimestamp = fixed_offset_fromtimestamp\<rparr>"

definition line_creating :: string where
  "line_creating =
     ''Nov  2 04:07:35 Host-1.local socketfilterfw[112] <Error>: Logging: creating /var/log/appfirewall.log''"

definition line_no_process :: string where
  "line_no_process =
     ''Oct 1 00:00:00 Host-1 socketfilterfw[1] <Error>: creating /var/log/appfirewall.log''"

definition line_dropbox :: string where
  "line_dropbox =
     ''Nov  2 04:07:35 Host-1.local socketfilterfw[112] <Info>: Dropbox: Allow (in:0 out:2)''"

definition line_repeated :: string where
  "line_repeated = ''Nov 29 22:18:29 --- last message repeated 1 time ---''"

definition line_nov31 :: string where
  "line_nov31 =
     ''Nov 31 04:07:35 Host-1.local socketfilterfw[112] <Error>: Logging: creating /var/log/appfirewall.log''"

definition line_epoch_plus_1 :: string where
  "line_epoch_plus_1 = ''Jan  1 00:00:01 Host-1.local socketfilterfw[112] <Info>: Skype: Allow''"

definition line_repeated_epoch :: string where
  "line_repeated_epoch = ''Jan  1 00:00:00 --- last message repeated 1 time ---''"

definition line_oct30 :: string where
  "line_oct30 = ''Oct 30 10:00:00 Host-1.local socketfilterfw[112] <Info>: Skype: Deny''"


definition line_jan1 :: string where
  "line_jan1 = ''Jan  1 00:00:00 Host-1.local socketfilterfw[112] <Info>: Skype: Allow''"


definition line_feb28 :: string where
  "line_feb28 = ''Feb 28 08:00:00 Host-1.local socketfilterfw[112] <Info>: Skype: Deny''"

definition line_bad_bytes :: string where
  "line_bad_bytes =
     ''Nov  2 04:07:36 Host-1.local socketfilterfw[112] <Info>: Dropbox: A'' @ [CHR 0xFF] @ ''B''"

text \<open>The parse results of these lines, and the parser object between them.\<close>

definition rec_creating :: "structure" where
  "rec_creating =
     \<lparr>month = ''Nov'', day = 2, time = [4, 7, 35], computer_name = ''Host-1.local'',
      agent = ''socketfilterfw[112]'', status = ''Error'', process_name = '' Logging'',
      action = ''creating /var/log/appfirewall.log''\<rparr>"

definition rec_dropbox :: "structure" where
  "rec_dropbox =
     \<lparr>month = ''Nov'', day = 2, time = [4, 7, 35], computer_name = ''Host-1.local'',
      agent = ''socketfilterfw[112]'', status = ''Info'', process_name = '' Dropbox'',
      action = ''Allow (in:0 out:2)''\<rparr>"

definition rec_repeated :: "structure" where
  "rec_repeated =
     \<lparr>month = ''Nov'', day = 29, time = [22, 18, 29], computer_name = [], agent = [],
      status = [], process_name = '' last message repeated 1 time '', action = []\<rparr>"

definition rec_repeated_epoch :: "structure" where
  "rec_repeated_epoch =
     \<lparr>month = ''Jan'', day = 1, time = [0, 0, 0], computer_name = [], agent = [],
      status = [], process_name = '' last message repeated 1 time '', action = []\<rparr>"

definition rec_nov31 :: "structure" where
  "rec_nov31 =
     \<lparr>month = ''Nov'', day = 31, time = [4, 7, 35], computer_name = ''Host-1.local'',
      agent = ''socketfilterfw[112]'', status = ''Error'', process_name = '' Logging'',
      action = ''creating /var/log/appfirewall.log''\<rparr>"

definition skype :: "string \<Rightarrow> int \<Rightarrow> int list \<Rightarrow> string \<Rightarrow> structure" where
  "skype mon d t act =
     \<lparr>month = mon, day = d, time = t, computer_name = ''Host-1.local'',
      agent = ''socketfilterfw[112]'', status = ''Info'', process_name = '' Skype'',
      action = act\<rparr>"

definition rec_bad_bytes :: "structure" where
  "rec_bad_bytes =
     \<lparr>month = ''Nov'', day = 2, time = [4, 7, 36], computer_name = ''Host-1.local'',
      agent = ''socketfilterfw[112]'', status = ''Info'', process_name = '' Dropbox'',
      action = [CHR ''A'', CHR 0xFF, CHR ''B'']\<rparr>"

definition skype_event :: "int \<Rightarrow> unicode \<Rightarrow> event" where
  "skype_event t act =
     \<lparr>event_timestamp = t, event_timestamp_desc = ADDED_TIME, event_action = act,
      event_agent = ''socketfilterfw[112]'', event_computer_name = ''Host-1.local'',
      event_process_name = ''Skype'', event_status = ''Info''\<rparr>"

definition dropbox_event :: "int \<Rightarrow> unicode \<Rightarrow> event" where
  "dropbox_event t act =
     \<lparr>event_timestamp = t, event_timestamp_desc = ADDED_TIME, event_action = act,
      event_agent = ''socketfilterfw[112]'', event_computer_name = ''Host-1.local'',
      event_process_name = ''Dropbox'', event_status = ''Info''\<rparr>"

definition after_line :: "int \<Rightarrow> int \<Rightarrow> structure option \<Rightarrow> parser" where
  "after_line y m prev = \<lparr>year_use = y, last_month = Some m, previous_structure = prev\<rparr>"

section \<open>Facts about the decoder and the record processing\<close>

lemma utf8_decode_ignore_total: "\<exists>u. utf8_decode ignore bs = Inr u"
proof (induction "ignore" bs rule: utf8_decode.induct)
  case 1
  show ?case by simp
next
  case (2 b bs)
  show ?case
  proof (cases "utf8_next (b # bs)")
    case (Decoded cp n)
    with 2(1)[OF Decoded] show ?thesis by auto
  next
    case (Malformed k)
    with 2(2)[OF Malformed] show ?thesis by auto
  qed
qed

lemma utf8_decode_Inl: "utf8_decode h bs = Inl e \<Longrightarrow> e = UnicodeDecodeError \<and> h = strict"
proof (induction h bs rule: utf8_decode.induct)
  case (1 h)
  then show ?case by simp
next
  case (2 h b bs)
  show ?case
  proof (cases "utf8_next (b # bs)")
    case (Decoded cp n)
    with 2 show ?thesis by (auto split: sum.splits)
  next
    case (Malformed k)
    with 2 show ?thesis by (cases h) (auto split: sum.splits)
  qed
qed

lemma decode_permissive:
  "(case decode a strict of Inl UnicodeDecodeError \<Rightarrow> decode a ignore | r \<Rightarrow> r) =
   Inr (permissive a)"
proof (cases "decode a strict")
  case (Inr u)
  then show ?thesis by (simp add: permissive_def)
next
  case (Inl e)
  then have e: "e = UnicodeDecodeError"
    using utf8_decode_Inl [of strict "map of_char a" e] by (simp add: decode_def)
  obtain u where u: "decode a ignore = Inr u"
    using utf8_decode_ignore_total [of "map of_char a"] by (auto simp: decode_def)
  from Inl e u show ?thesis by (simp add: permissive_def)
qed

lemma permissive_invalid:
  "decode a strict = Inl e \<Longrightarrow> decode a ignore = Inr (permissive a)"
  using utf8_decode_ignore_total [of "map of_char a"]
  by (auto simp: permissive_def decode_def)

lemma GetYear_cases:
  "GetYear sys st tz =
     (case file_time st of
        None \<Rightarrow> Inr (GetCurrentYear sys)
      | Some t \<Rightarrow>
          (case fromtimestamp sys t tz of
             Inl e \<Rightarrow> if e = ValueError then Inr (GetCurrentYear sys) else Inl e
           | Inr y \<Rightarrow> Inr y))"
  by (auto simp: GetYear_def file_time_def getattr_def Let_def
           split: option.splits sum.splits exn.splits)

lemma resolution_returns_resolved:
  "year_use self \<noteq> 0 \<Longrightarrow> resolution_returns mediator sys self"
  by (simp add: resolution_returns_def)

lemma GetYear_returns:
  assumes "resolution_returns mediator sys self" and "year_use self = 0" and "year mediator = 0"
  shows "\<exists>y. GetYear sys (GetStat sys) (timezone mediator) = Inr y \<and>
             (if y = 0 then GetCurrentYear sys else y) = YearResolver mediator sys"
  using assms
  by (auto simp: GetYear_cases resolution_returns_def YearResolver_def
           split: option.splits sum.splits)

lemma GetYear_raises:
  assumes "\<not> resolution_returns mediator sys self"
  shows "year_use self = 0 \<and> year mediator = 0 \<and>
         (\<exists>e. GetYear sys (GetStat sys) (timezone mediator) = Inl e)"
  using assms
  by (auto simp: GetYear_cases resolution_returns_def split: option.splits sum.splits)

text \<open>
  \<open>_ParseLogLine\<close> in one view, where the year resolution returns: the month bookkeeping
  and the year come first, then the guard on the timestamp, then the choice of the acting
  record.
\<close>

lemma ParseLogLine_unfold:
  assumes "resolution_returns mediator sys self"
  shows "ParseLogLine mediator sys self st key =
   (let mo = MONTH_DICT (lower (month st));
        lm = (if py_not (last_month self) then mo else last_month self);
        y = year_in_use mediator sys self + (if py_less mo lm then 1 else 0);
        timestamp = GetTimestamp (day st) mo y (time st)
    in if timestamp = 0 then (self\<lparr>year_use := y, last_month := lm\<rparr>, Inr [])
       else if key = ''logline''
       then (self\<lparr>year_use := y, last_month := mo, previous_structure := Some st\<rparr>,
             emit timestamp st)
       else (self\<lparr>year_use := y, last_month := mo\<rparr>,
             case previous_structure self of
               None \<Rightarrow> Inl AttributeError
             | Some st' \<Rightarrow> emit timestamp st'))"
proof (cases "year_use self = 0")
  case False
  then show ?thesis
    unfolding ParseLogLine_def Let_def
    by (simp add: year_in_use_def decode_permissive emit_def split: option.splits)
next
  case True
  show ?thesis
  proof (cases "year mediator = 0")
    case False
    with True show ?thesis
      unfolding ParseLogLine_def Let_def
      by (simp add: year_in_use_def YearResolver_def decode_permissive emit_def
               split: option.splits)
  next
    case hint: True
    from GetYear_returns [OF assms True hint] obtain y where
      y: "GetYear sys (GetStat sys) (timezone mediator) = Inr y"
         "(if y = 0 then GetCurrentYear sys else y) = YearResolver mediator sys"
      by blast
    with True hint show ?thesis
      unfolding ParseLogLine_def Let_def
      by (cases "y = 0")
         (simp_all add: year_in_use_def decode_permissive emit_def split: option.splits)
  qed
qed

text \<open>Where the year resolution raises, the exception leaves the method at once.\<close>

lemma ParseLogLine_raised:
  assumes "\<not> resolution_returns mediator sys self"
  shows "\<exists>e. ParseLogLine mediator sys self st key = (self, Inl e)"
proof -
  from GetYear_raises [OF assms] obtain e where
    z: "year_use self = 0" "year mediator = 0"
    and e: "GetYear sys (GetStat sys) (timezone mediator) = Inl e"
    by blast
  have "self\<lparr>year_use := 0\<rparr> = self"
    using z(1) by (cases self) simp
  with z e show ?thesis
    unfolding ParseLogLine_def Let_def by simp
qed

lemma ParseLogLine_cases:
  assumes "ParseLogLine mediator sys self st key = (self', r)"
  obtains (returns) "resolution_returns mediator sys self"
  | (raises) e where "r = Inl e" and "self' = self" and "year_use self = 0"
proof (cases "resolution_returns mediator sys self")
  case True
  then show ?thesis by (rule returns)
next
  case False
  from ParseLogLine_raised [OF False, of st key] GetYear_raises [OF False] assms
  show ?thesis by (auto intro: raises)
qed

lemma GetTimestamp_year_0: "GetTimestamp d mo 0 t = 0"
  by (simp add: GetTimestamp_def FromTimeParts_def valid_datetime_def
           split: list.splits option.splits)

lemmas grammar_defs =
  parseString_def expandtabs_def FIREWALL_LINE_def REPEATED_LINE_def LINE_STRUCTURES_def
  And_def tokens_def TIME_def MONTH_def TWO_DIGITS_def ONE_OR_TWO_DIGITS_def Word_def
  Literal_def CharsNotIn_def SkipTo_lineEnd_def preParse_def DEFAULT_WHITE_CHARS_def
  nums_def uppercase_def lowercase_def printables_def PyParseIntCast_def Let_def

lemmas calendar_defs =
  GetTimestamp_def FromTimeParts_def valid_datetime_def days_in_month_def is_leap_def
  toordinal_def days_before_year_def days_before_month_def MONTH_DICT_def lower_def
  lower_char_def py_not_def py_less_def

lemmas year_defs =
  year_in_use_def YearResolver_def resolution_returns_def file_time_def Let_def

lemma year_of_host_ctime: "fixed_offset_fromtimestamp 1388534399 3600 = Inr 2014"
  by code_simp

lemma year_of_host_mtime: "fixed_offset_fromtimestamp 1262304000 3600 = Inr 2010"
  by code_simp

lemma year_of_late_host_crtime: "fixed_offset_fromtimestamp 253402300799 3600 = Inl OverflowError"
  by code_simp

lemmas event_defs =
  emit_def MacAppFirewallLogEvent_def strip_def isspace_def permissive_def decode_def
  utf8_code_length_def is_cont_def Let_def

lemma py_less_irrefl: "\<not> py_less a a"
  by (simp add: py_less_def split: option.splits)



lemma ParseLogLine_resolved:
  assumes "year_use self \<noteq> 0"
  shows "ParseLogLine mediator sys self st key = ParseLogLine mediator' sys' self st key"
  using assms by (simp add: ParseLogLine_unfold resolution_returns_resolved year_in_use_def)

lemma ParseLogLine_year:
  assumes "resolution_returns mediator sys self"
  shows "year_use (fst (ParseLogLine mediator sys self st key)) =
     year_in_use mediator sys self +
     (if py_less (MONTH_DICT (lower (month st)))
           (if py_not (last_month self) then MONTH_DICT (lower (month st)) else last_month self)
      then 1 else 0)"
  using assms by (simp add: ParseLogLine_unfold Let_def)

lemma process_line_resolved:
  assumes "year_use self \<noteq> 0"
  shows "process_line mediator sys self line = process_line mediator' sys' self line"
  using assms ParseLogLine_resolved [of self mediator sys _ _ mediator' sys']
  by (simp add: process_line_def ParseRecord_def split: option.splits)

lemma process_line_positive:
  assumes "0 < year_use self"
  shows "0 < year_use (fst (process_line mediator sys self line))"
  using assms
  by (auto simp: process_line_def ParseRecord_def ParseLogLine_year resolution_returns_resolved
                 year_in_use_def
           split: option.splits)

lemma process_lines_resolved:
  assumes "0 < year_use self"
  shows "process_lines mediator sys self lines = process_lines mediator' sys' self lines"
  using assms
proof (induction lines arbitrary: self)
  case Nil
  show ?case by simp
next
  case (Cons line lines)
  have step: "process_line mediator sys self line = process_line mediator' sys' self line"
    using Cons.prems by (intro process_line_resolved) simp
  obtain self1 r where r: "process_line mediator' sys' self line = (self1, r)"
    by (cases "process_line mediator' sys' self line")
  have "0 < year_use self1"
    using process_line_positive [OF Cons.prems, of mediator' sys' line] r by simp
  then have "process_lines mediator sys self1 lines = process_lines mediator' sys' self1 lines"
    by (rule Cons.IH)
  with step r show ?case by (simp split: sum.splits)
qed

subsection \<open>The concrete file, line by line\<close>

lemma tokenized_creating:
  "match_structures LINE_STRUCTURES line_creating = Some (''logline'', rec_creating)"
  by (simp add: line_creating_def rec_creating_def grammar_defs)

lemma tokenized_dropbox:
  "match_structures LINE_STRUCTURES line_dropbox = Some (''logline'', rec_dropbox)"
  by (simp add: line_dropbox_def rec_dropbox_def grammar_defs)

lemma tokenized_repeated:
  "match_structures LINE_STRUCTURES line_repeated = Some (''repeated'', rec_repeated)"
  by (simp add: line_repeated_def rec_repeated_def grammar_defs)

lemma tokenized_nov31:
  "match_structures LINE_STRUCTURES line_nov31 = Some (''logline'', rec_nov31)"
  by (simp add: line_nov31_def rec_nov31_def grammar_defs)

lemma tokenized_oct30:
  "match_structures LINE_STRUCTURES line_oct30 =
     Some (''logline'', skype ''Oct'' 30 [10, 0, 0] ''Deny'')"
  by (simp add: line_oct30_def skype_def grammar_defs)


lemma tokenized_jan1:
  "match_structures LINE_STRUCTURES line_jan1 =
     Some (''logline'', skype ''Jan'' 1 [0, 0, 0] ''Allow'')"
  by (simp add: line_jan1_def skype_def grammar_defs)



lemma tokenized_bad_bytes:
  "match_structures LINE_STRUCTURES line_bad_bytes = Some (''logline'', rec_bad_bytes)"
  by (simp add: line_bad_bytes_def rec_bad_bytes_def grammar_defs)

lemma tokenized_epoch_plus_1:
  "match_structures LINE_STRUCTURES line_epoch_plus_1 =
     Some (''logline'', skype ''Jan'' 1 [0, 0, 1] ''Allow'')"
  by (simp add: line_epoch_plus_1_def skype_def grammar_defs)

lemma tokenized_repeated_epoch:
  "match_structures LINE_STRUCTURES line_repeated_epoch = Some (''repeated'', rec_repeated_epoch)"
  by (simp add: line_repeated_epoch_def rec_repeated_epoch_def grammar_defs)

lemmas run_defs =
  ParseLogLine_unfold init_def after_line_def skype_def skype_event_def dropbox_event_def
  hint_2013_def hint_1970_def no_hint_def host_def other_host_def late_host_def year_defs
  calendar_defs
  event_defs char_of_def bit_Suc_0_iff

text \<open>The lines of the file, processed one after the other.\<close>

lemma step_oct30:
  "ParseLogLine hint_2013 host init (skype ''Oct'' 30 [10, 0, 0] ''Deny'') ''logline'' =
     (after_line 2013 10 (Some (skype ''Oct'' 30 [10, 0, 0] ''Deny'')),
      Inr [skype_event 1383127200000000 [68, 101, 110, 121]])"
  by (simp add: run_defs)

lemma step_nov31:
  "ParseLogLine hint_2013 host (after_line 2013 10 (Some (skype ''Oct'' 30 [10, 0, 0] ''Deny'')))
     rec_nov31 ''logline'' =
     (after_line 2013 10 (Some (skype ''Oct'' 30 [10, 0, 0] ''Deny'')), Inr [])"
  by (simp add: run_defs rec_nov31_def)


lemma step_feb30:
  "ParseLogLine hint_2013 host (after_line 2013 12 (Some (skype ''Dec'' 31 [23, 59, 59] ''Deny'')))
     (skype ''Feb'' 30 [8, 0, 0] ''Deny'') ''logline'' =
     (after_line 2014 12 (Some (skype ''Dec'' 31 [23, 59, 59] ''Deny'')), Inr [])"
  by (simp add: run_defs)



lemma step_epoch:
  "ParseLogLine hint_1970 host init (skype ''Jan'' 1 [0, 0, 0] ''Allow'') ''logline'' =
     (after_line 1970 1 None, Inr [])"
  by (simp add: run_defs)

lemma step_dropbox:
  "ParseLogLine hint_2013 host init rec_dropbox ''logline'' =
     (after_line 2013 11 (Some rec_dropbox),
      Inr [dropbox_event 1383365255000000
             [65, 108, 108, 111, 119, 32, 40, 105, 110, 58, 48, 32, 111, 117, 116, 58, 50, 41]])"
  by (simp add: run_defs rec_dropbox_def)

lemma step_repeated:
  "ParseLogLine hint_2013 host (after_line 2013 11 (Some rec_dropbox)) rec_repeated ''repeated'' =
     (after_line 2013 11 (Some rec_dropbox),
      Inr [dropbox_event 1385763509000000
             [65, 108, 108, 111, 119, 32, 40, 105, 110, 58, 48, 32, 111, 117, 116, 58, 50, 41]])"
  by (simp add: run_defs rec_dropbox_def rec_repeated_def)

lemma step_creating_nov31:
  "ParseLogLine hint_2013 host init rec_nov31 ''logline'' = (after_line 2013 11 None, Inr [])"
  by (simp add: run_defs rec_nov31_def)

lemma step_repeated_first:
  "ParseLogLine hint_2013 host (after_line 2013 11 None) rec_repeated ''repeated'' =
     (after_line 2013 11 None, Inl AttributeError)"
  by (simp add: run_defs rec_repeated_def)

lemma step_bad_bytes:
  "ParseLogLine hint_2013 host init rec_bad_bytes ''logline'' =
     (after_line 2013 11 (Some rec_bad_bytes), Inr [dropbox_event 1383365256000000 [65, 66]])"
  by (simp add: run_defs rec_bad_bytes_def)

lemma step_epoch_plus_1:
  "ParseLogLine hint_1970 host init (skype ''Jan'' 1 [0, 0, 1] ''Allow'') ''logline'' =
     (after_line 1970 1 (Some (skype ''Jan'' 1 [0, 0, 1] ''Allow'')),
      Inr [skype_event 1000000 [65, 108, 108, 111, 119]])"
  by (simp add: run_defs)

lemma step_repeated_epoch:
  "ParseLogLine hint_1970 host (after_line 1970 1 (Some (skype ''Jan'' 1 [0, 0, 1] ''Allow'')))
     rec_repeated_epoch ''repeated'' =
     (after_line 1970 1 (Some (skype ''Jan'' 1 [0, 0, 1] ''Allow'')), Inr [])"
  by (simp add: run_defs rec_repeated_epoch_def)

lemma step_late_host:
  "ParseLogLine no_hint late_host init rec_dropbox ''logline'' = (init, Inl OverflowError)"
  by (simp add: ParseLogLine_def GetYear_def getattr_def Let_def no_hint_def late_host_def
                init_def year_of_late_host_crtime)

lemma timestamp_nov31: "GetTimestamp 31 (MONTH_DICT (lower ''Nov'')) 2013 [4, 7, 35] = 0"
  by (simp add: calendar_defs char_of_def bit_Suc_0_iff)

lemma timestamp_feb30: "GetTimestamp 30 (MONTH_DICT (lower ''Feb'')) 2014 [8, 0, 0] = 0"
  by (simp add: calendar_defs char_of_def bit_Suc_0_iff)

lemma timestamp_nov29:
  "GetTimestamp 29 (MONTH_DICT (lower ''Nov'')) 2013 [22, 18, 29] = 1385763509000000"
  by (simp add: calendar_defs char_of_def bit_Suc_0_iff)

lemma timestamp_nov2:
  "GetTimestamp 2 (MONTH_DICT (lower ''Nov'')) 2013 [4, 7, 36] = 1383365256000000"
  by (simp add: calendar_defs char_of_def bit_Suc_0_iff)

lemma months: "MONTH_DICT (lower ''Jan'') = Some 1" "MONTH_DICT (lower ''Feb'') = Some 2"
  "MONTH_DICT (lower ''Nov'') = Some 11" "MONTH_DICT (lower ''Dec'') = Some 12"
  by (simp_all add: calendar_defs char_of_def bit_Suc_0_iff)

section \<open>Format detection (C6)\<close>

text \<open>
  C6. \<open>VerifyStructure\<close> accepts a line exactly when the line tokenizes under the grammar
  of the full record, the extracted action is \<open>creating /var/log/appfirewall.log\<close> and the
  extracted status is \<open>Error\<close>; in every other case (no match, another action, another
  status) it returns false, and it never raises.
\<close>

theorem VerifyStructure_iff:
  "VerifyStructure line \<longleftrightarrow>
     (\<exists>st. parseString FIREWALL_LINE line = Inr st \<and>
           action st = ''creating /var/log/appfirewall.log'' \<and> status st = ''Error'')"
proof
  assume accepted: "VerifyStructure line"
  show "\<exists>st. parseString FIREWALL_LINE line = Inr st \<and>
          action st = ''creating /var/log/appfirewall.log'' \<and> status st = ''Error''"
  proof (cases "parseString FIREWALL_LINE line")
    case (Inl e)
    with accepted show ?thesis by (simp add: VerifyStructure_def)
  next
    case (Inr st)
    with accepted have "action st = ''creating /var/log/appfirewall.log'' \<and> status st = ''Error''"
      by (simp add: VerifyStructure_def split: if_splits)
    with Inr show ?thesis by simp
  qed
next
  assume "\<exists>st. parseString FIREWALL_LINE line = Inr st \<and>
            action st = ''creating /var/log/appfirewall.log'' \<and> status st = ''Error''"
  then obtain st where "parseString FIREWALL_LINE line = Inr st"
    and "action st = ''creating /var/log/appfirewall.log''" and "status st = ''Error''"
    by blast
  then show "VerifyStructure line" by (simp add: VerifyStructure_def)
qed

text \<open>
  C6, on the concrete file: the initialization line is accepted; the same shape with
  another action and status, the repeated marker, and a line that has no process name
  between the status and the action are rejected.
\<close>

theorem VerifyStructure_iff_witness:
  "VerifyStructure line_creating \<and> \<not> VerifyStructure line_dropbox \<and>
   \<not> VerifyStructure line_repeated \<and> \<not> VerifyStructure line_no_process"
proof -
  have d: "parseString FIREWALL_LINE line_no_process = Inl ParseException"
    by (simp add: line_no_process_def grammar_defs)
  have a: "parseString FIREWALL_LINE line_creating = Inr rec_creating"
    by (simp add: line_creating_def rec_creating_def grammar_defs)
  have b: "parseString FIREWALL_LINE line_dropbox = Inr rec_dropbox"
    by (simp add: line_dropbox_def rec_dropbox_def grammar_defs)
  have c: "parseString FIREWALL_LINE line_repeated = Inl ParseException"
    by (simp add: line_repeated_def grammar_defs)
  show ?thesis
    using VerifyStructure_iff [of line_creating] VerifyStructure_iff [of line_dropbox]
          VerifyStructure_iff [of line_repeated] VerifyStructure_iff [of line_no_process]
          a b c d
    by (simp add: rec_creating_def rec_dropbox_def)
qed

section \<open>The year in use (C7, C8)\<close>

text \<open>
  C7, as the specification states it, fails in two ways. The resolution can fail
  outright: a creation time in the last second of the year 9999, converted one hour east
  of UTC, makes \<open>fromtimestamp\<close> raise \<open>OverflowError\<close>, which \<open>_GetYear\<close> does not catch, and
  the exception leaves \<open>_ParseLogLine\<close>. And the fallback of the creation time is the
  attribute \<open>ctime\<close>, not a modification time: for a file modified in 2010 and changed in
  the last second of 2013 the year is that of \<open>ctime\<close>, 2014 one hour east.
\<close>

theorem year_resolution_counterexample:
  "ParseLogLine no_hint late_host init rec_dropbox ''logline'' = (init, Inl OverflowError) \<and>
   crtime (GetStat host) = None \<and>
   mtime (GetStat host) = Some 1262304000 \<and>
   fromtimestamp host 1262304000 (timezone no_hint) = Inr 2010 \<and>
   ctime (GetStat host) = Some 1388534399 \<and>
   fromtimestamp host 1388534399 (timezone no_hint) = Inr 2014 \<and>
   year_use (fst (ParseLogLine no_hint host init rec_dropbox ''logline'')) = 2014"
proof -
  have r: "resolution_returns no_hint host init"
    by (simp add: no_hint_def host_def init_def year_defs year_of_host_ctime)
  have y: "YearResolver no_hint host = 2014"
    by (simp add: no_hint_def host_def year_defs year_of_host_ctime)
  have "year_use (fst (ParseLogLine no_hint host init rec_dropbox ''logline'')) = 2014"
    using y ParseLogLine_year [OF r, of rec_dropbox "''logline''"]
    by (simp add: year_in_use_def init_def py_not_def py_less_irrefl)
  then show ?thesis
    by (simp add: step_late_host)
       (simp add: host_def no_hint_def year_of_host_ctime year_of_host_mtime)
qed

text \<open>
  C7, amended. On the first processed line, with the year still unresolved, the year in
  use becomes the first of: the year hint when nonzero; the calendar year, in the supplied
  timezone, of the file's creation time or else of its \<open>ctime\<close>; the current year of the
  system clock, which is also taken where the conversion raises \<open>ValueError\<close>. The
  resolution yields a year whenever the conversion of the file time returns a date or
  raises \<open>ValueError\<close>.
\<close>

theorem first_line_resolves_year:
  assumes "year_use self = 0" and "py_not (last_month self)"
    and "resolution_returns mediator sys self"
  shows "year_use (fst (ParseLogLine mediator sys self st key)) = YearResolver mediator sys"
  using assms by (simp add: ParseLogLine_unfold Let_def year_in_use_def py_less_irrefl)

text \<open>
  C7, amended, on the concrete file: the hint 2013 wins; without a hint the \<open>ctime\<close> of the
  file, one second before 2014 in UTC, is the year 2014 one hour east; where the conversion
  of the file time raises \<open>ValueError\<close> the clock's year is taken.
\<close>

theorem first_line_resolves_year_witness:
  "year_use init = 0 \<and> py_not (last_month init) \<and>
   resolution_returns hint_2013 host init \<and> resolution_returns no_hint host init \<and>
   resolution_returns no_hint other_host init \<and>
   year_use (fst (ParseLogLine hint_2013 host init rec_dropbox ''logline'')) = 2013 \<and>
   year_use (fst (ParseLogLine no_hint host init rec_dropbox ''logline'')) = 2014 \<and>
   year_use (fst (ParseLogLine no_hint other_host init rec_dropbox ''logline'')) = 1999"
proof -
  have h: "year_use init = 0" "py_not (last_month init)"
    by (simp_all add: init_def py_not_def)
  have r1: "resolution_returns hint_2013 host init"
    by (simp add: hint_2013_def year_defs)
  have r2: "resolution_returns no_hint host init"
    by (simp add: no_hint_def host_def init_def year_defs year_of_host_ctime)
  have r3: "resolution_returns no_hint other_host init"
    by (simp add: no_hint_def other_host_def init_def year_defs)
  have "YearResolver hint_2013 host = 2013"
    by (simp add: hint_2013_def host_def year_defs)
  moreover have "YearResolver no_hint host = 2014"
    by (simp add: no_hint_def host_def year_defs year_of_host_ctime)
  moreover have "YearResolver no_hint other_host = 1999"
    by (simp add: no_hint_def other_host_def year_defs)
  ultimately show ?thesis
    using h r1 r2 r3
          first_line_resolves_year [OF h r1, of rec_dropbox "''logline''"]
          first_line_resolves_year [OF h r2, of rec_dropbox "''logline''"]
          first_line_resolves_year [OF h r3, of rec_dropbox "''logline''"]
    by simp
qed

text \<open>
  C8. Once the year in use is set, no later line consults the resolution again: a line
  processed with a nonzero year gives the same result whatever the hint, the file times,
  the timezone and the clock are, and changes the year only by the rollover increment;
  from a positive year on, this holds for the whole rest of the file.
\<close>

theorem year_resolved_once:
  "(year_use self \<noteq> 0 \<longrightarrow>
      ParseLogLine mediator sys self st key = ParseLogLine mediator' sys' self st key \<and>
      year_use (fst (ParseLogLine mediator sys self st key)) =
        year_use self +
        (if py_less (MONTH_DICT (lower (month st)))
              (if py_not (last_month self) then MONTH_DICT (lower (month st))
               else last_month self)
         then 1 else 0)) \<and>
   (0 < year_use self \<longrightarrow>
      process_lines mediator sys self lines = process_lines mediator' sys' self lines)"
  using ParseLogLine_resolved [of self mediator sys st key mediator' sys']
        process_lines_resolved [of self mediator sys lines mediator' sys']
  by (simp add: ParseLogLine_year resolution_returns_resolved year_in_use_def)

text \<open>
  C8, on the concrete file: after the December line the year is 2013; the rest of the
  file is processed alike with the hint 2013 and with no hint and another clock, and the
  January line moves the year to 2014.
\<close>

theorem year_resolved_once_witness:
  "year_use (after_line 2013 12 None) \<noteq> 0 \<and> 0 < year_use (after_line 2013 12 None) \<and>
   year_use (fst (ParseLogLine hint_2013 host (after_line 2013 12 None)
                    (skype ''Jan'' 1 [0, 0, 0] ''Allow'') ''logline'')) = 2014 \<and>
   process_lines hint_2013 host (after_line 2013 12 None) [line_jan1, line_feb28] =
   process_lines no_hint other_host (after_line 2013 12 None) [line_jan1, line_feb28]"
proof -
  have h: "year_use (after_line 2013 12 None) \<noteq> 0" "0 < year_use (after_line 2013 12 None)"
    by (simp_all add: after_line_def)
  have m: "py_less (MONTH_DICT (lower (month (skype ''Jan'' 1 [0, 0, 0] ''Allow''))))
             (last_month (after_line 2013 12 None))"
          "\<not> py_not (last_month (after_line 2013 12 None))"
          "year_use (after_line 2013 12 None) = 2013"
    by (simp_all add: after_line_def skype_def calendar_defs char_of_def bit_Suc_0_iff)
  note T = year_resolved_once [of "after_line 2013 12 None" hint_2013 host
            "skype ''Jan'' 1 [0, 0, 0] ''Allow''" "''logline''" no_hint other_host
            "[line_jan1, line_feb28]"]
  have a:
    "year_use (fst (ParseLogLine hint_2013 host (after_line 2013 12 None)
                     (skype ''Jan'' 1 [0, 0, 0] ''Allow'') ''logline'')) = 2014"
    unfolding T [THEN conjunct1, rule_format, OF h(1), THEN conjunct2]
    using m by simp
  note b = T [THEN conjunct2, rule_format, OF h(2)]
  show ?thesis
    by (intro conjI) (fact h a b)+
qed

section \<open>Lines whose timestamp does not compose (C1, C10)\<close>

text \<open>
  C1, as the specification states it, fails: the line \<open>Nov 31\<close> is dropped with the month
  and the cached record exactly as the October line left them; the month is not moved to
  November and the record of the dropped line is not cached.
\<close>

theorem bookkeeping_after_failure_counterexample:
  "fst (process_line hint_2013 host init line_oct30) =
     after_line 2013 10 (Some (skype ''Oct'' 30 [10, 0, 0] ''Deny'')) \<and>
   process_line hint_2013 host (after_line 2013 10 (Some (skype ''Oct'' 30 [10, 0, 0] ''Deny'')))
     line_nov31 =
     (after_line 2013 10 (Some (skype ''Oct'' 30 [10, 0, 0] ''Deny'')), Inr []) \<and>
   last_month (after_line 2013 10 (Some (skype ''Oct'' 30 [10, 0, 0] ''Deny''))) \<noteq>
     MONTH_DICT (lower (month rec_nov31)) \<and>
   previous_structure (after_line 2013 10 (Some (skype ''Oct'' 30 [10, 0, 0] ''Deny''))) \<noteq>
     Some rec_nov31"
  by (simp add: process_line_def ParseRecord_def tokenized_oct30 tokenized_nov31 step_oct30
                step_nov31)
     (simp add: after_line_def rec_nov31_def skype_def months)

text \<open>
  C1, amended. A line whose timestamp composes to the sentinel 0 emits no event and is
  dropped before the bookkeeping of an accepted line: the cached previous record keeps its
  value, and the last month keeps its value unless it was unset, in which case it is the
  month of the line. The timestamp is composed only where the year resolution before it
  returns, which it always does once the year is set or with a year hint.
\<close>

theorem failed_composition_discards_line:
  assumes "ParseLogLine mediator sys self st key = (self', r)"
    and "GetTimestamp (day st) (MONTH_DICT (lower (month st))) (year_use self') (time st) = 0"
    and "resolution_returns mediator sys self"
  shows "r = Inr [] \<and> previous_structure self' = previous_structure self \<and>
         last_month self' =
           (if py_not (last_month self) then MONTH_DICT (lower (month st)) else last_month self)"
  using assms by (auto simp: ParseLogLine_unfold Let_def split: if_splits)

text \<open>
  C1, amended, on the concrete file: \<open>Feb 30\<close> after the December line emits nothing and
  leaves December and the December record in place.
\<close>

theorem failed_composition_discards_line_witness:
  "ParseLogLine hint_2013 host (after_line 2013 12 (Some (skype ''Dec'' 31 [23, 59, 59] ''Deny'')))
     (skype ''Feb'' 30 [8, 0, 0] ''Deny'') ''logline'' =
     (after_line 2014 12 (Some (skype ''Dec'' 31 [23, 59, 59] ''Deny'')), Inr []) \<and>
   previous_structure (after_line 2014 12 (Some (skype ''Dec'' 31 [23, 59, 59] ''Deny''))) =
     Some (skype ''Dec'' 31 [23, 59, 59] ''Deny'') \<and>
   last_month (after_line 2014 12 (Some (skype ''Dec'' 31 [23, 59, 59] ''Deny''))) = Some 12"
proof -
  have t: "GetTimestamp (day (skype ''Feb'' 30 [8, 0, 0] ''Deny''))
             (MONTH_DICT (lower (month (skype ''Feb'' 30 [8, 0, 0] ''Deny''))))
             (year_use (after_line 2014 12 (Some (skype ''Dec'' 31 [23, 59, 59] ''Deny''))))
             (time (skype ''Feb'' 30 [8, 0, 0] ''Deny'')) = 0"
    by (simp add: skype_def after_line_def timestamp_feb30)
  have r: "resolution_returns hint_2013 host
             (after_line 2013 12 (Some (skype ''Dec'' 31 [23, 59, 59] ''Deny'')))"
    by (simp add: hint_2013_def year_defs)
  show ?thesis
    using failed_composition_discards_line [OF step_feb30 t r] step_feb30
    by (simp add: after_line_def py_not_def)
qed

text \<open>
  C10. A line that composes to exactly the epoch instant, January 1, 1970, 00:00:00, is a
  valid calendar date and time, and yet it is handled as a failed composition: the
  timestamp 0 is the sentinel, no event is emitted, the record is not cached and the last
  month is left as for a line whose date is invalid.
\<close>

theorem epoch_line_yields_no_event:
  assumes "ParseLogLine mediator sys self st key = (self', r)"
    and "year_use self' = 1970" and "MONTH_DICT (lower (month st)) = Some 1"
    and "day st = 1" and "time st = [0, 0, 0]"
  shows "valid_datetime 1970 1 1 0 0 0 \<and> r = Inr [] \<and>
         previous_structure self' = previous_structure self \<and>
         last_month self' = (if py_not (last_month self) then Some 1 else last_month self)"
proof -
  have zero: "GetTimestamp (day st) (MONTH_DICT (lower (month st))) (year_use self') (time st) = 0"
    using assms(2-5)
    by (simp add: GetTimestamp_def FromTimeParts_def valid_datetime_def days_in_month_def
                  toordinal_def days_before_year_def days_before_month_def)
  have valid: "valid_datetime 1970 1 1 0 0 0"
    by (simp add: valid_datetime_def days_in_month_def)
  from assms(1) show ?thesis
  proof (cases rule: ParseLogLine_cases)
    case returns
    then show ?thesis
      using assms(1,3) zero valid
      by (auto simp: ParseLogLine_unfold Let_def split: if_splits)
  next
    case (raises e)
    with assms(2) show ?thesis by simp
  qed
qed

text \<open>
  C10, on the concrete file: with the year hint 1970 the full record of January 1,
  00:00:00 yields no event, and the parser caches no record.
\<close>

theorem epoch_line_yields_no_event_witness:
  "ParseLogLine hint_1970 host init (skype ''Jan'' 1 [0, 0, 0] ''Allow'') ''logline'' =
     (after_line 1970 1 None, Inr []) \<and>
   valid_datetime 1970 1 1 0 0 0 \<and>
   previous_structure (after_line 1970 1 None) = previous_structure init \<and>
   last_month (after_line 1970 1 None) = Some 1"
proof -
  have h: "year_use (after_line 1970 1 None) = 1970"
      "MONTH_DICT (lower (month (skype ''Jan'' 1 [0, 0, 0] ''Allow''))) = Some 1"
      "day (skype ''Jan'' 1 [0, 0, 0] ''Allow'') = 1"
      "time (skype ''Jan'' 1 [0, 0, 0] ''Allow'') = [0, 0, 0]"
    by (simp_all add: after_line_def skype_def months)
  show ?thesis
    using epoch_line_yields_no_event [OF step_epoch h] step_epoch
    by (simp add: init_def py_not_def)
qed

section \<open>The repeated marker (C2, C4, C9)\<close>

text \<open>
  C2. A repeated marker with a valid timestamp, processed while no full record is cached,
  is not discarded quietly, as the specification asks: the method reads the attribute
  \<open>action\<close> of \<open>None\<close>, and the \<open>AttributeError\<close> is not caught, so no event is emitted and
  the exception leaves the method.
\<close>

theorem repeated_without_previous_raises:
  assumes "previous_structure self = None"
    and "ParseLogLine mediator sys self st ''repeated'' = (self', r)"
    and "GetTimestamp (day st) (MONTH_DICT (lower (month st))) (year_use self') (time st) \<noteq> 0"
  shows "r = Inl AttributeError"
  using assms(2)
proof (cases rule: ParseLogLine_cases)
  case returns
  then show ?thesis
    using assms by (auto simp: ParseLogLine_unfold Let_def split: if_splits)
next
  case (raises e)
  with assms(3) show ?thesis by (simp add: GetTimestamp_year_0)
qed

text \<open>
  C2, on a concrete file: the first line passes the format detection but has the day 31
  in November, so nothing is cached; the repeated marker after it raises, and the
  processing of the file ends there.
\<close>

theorem repeated_without_previous_raises_witness:
  "VerifyStructure line_nov31 \<and>
   process_lines hint_2013 host init [line_nov31, line_repeated] =
     (after_line 2013 11 None, [], Some AttributeError)"
proof -
  have v: "VerifyStructure line_nov31"
    by (simp add: VerifyStructure_def line_nov31_def grammar_defs)
  have h: "previous_structure (after_line 2013 11 None) = None"
    by (simp add: after_line_def)
  have t: "GetTimestamp (day rec_repeated) (MONTH_DICT (lower (month rec_repeated)))
             (year_use (after_line 2013 11 None)) (time rec_repeated) \<noteq> 0"
    by (simp add: rec_repeated_def after_line_def timestamp_nov29)
  have "Inl AttributeError = (Inl AttributeError :: exn + event list)"
    using repeated_without_previous_raises [OF h step_repeated_first t] .
  then show ?thesis
    using v
    by (simp add: process_line_def ParseRecord_def tokenized_nov31 tokenized_repeated
                  step_creating_nov31 step_repeated_first)
qed

text \<open>
  C4, as the specification states it, fails at one calendar-valid timestamp: with the year
  1970, a repeated marker of January 1, 00:00:00 after the accepted record of 00:00:01
  composes to the epoch instant 0, which the guard takes for the failure sentinel, and
  emits nothing; the file yields the one event of the full record only.
\<close>

theorem epoch_marker_counterexample:
  "valid_datetime 1970 1 1 0 0 0 \<and>
   process_lines hint_1970 host init [line_epoch_plus_1, line_repeated_epoch] =
     (after_line 1970 1 (Some (skype ''Jan'' 1 [0, 0, 1] ''Allow'')),
      [skype_event 1000000 [65, 108, 108, 111, 119]], None) \<and>
   process_line hint_1970 host (after_line 1970 1 (Some (skype ''Jan'' 1 [0, 0, 1] ''Allow'')))
     line_repeated_epoch =
     (after_line 1970 1 (Some (skype ''Jan'' 1 [0, 0, 1] ''Allow'')), Inr [])"
  by (simp add: process_line_def ParseRecord_def tokenized_epoch_plus_1 tokenized_repeated_epoch
                step_epoch_plus_1 step_repeated_epoch)
     (simp add: valid_datetime_def days_in_month_def)

text \<open>
  C4, amended. A repeated marker whose timestamp composes to a nonzero value (every
  calendar-valid instant but the epoch), processed while the full record \<open>prev\<close> is
  cached, emits exactly one event: the event that \<open>prev\<close> emitted when it was accepted,
  with the timestamp replaced by the one composed from the marker's own month, day and
  time. Computer name, agent, status and action are those of \<open>prev\<close>; an accepted full
  record is the cached one from then on, and the marker leaves it cached.
\<close>

theorem repeated_line_copies_previous_record:
  assumes accepted: "ParseLogLine mediator0 sys0 self0 prev ''logline'' = (self1, Inr [e])"
    and cached: "previous_structure self = Some prev"
    and res: "ParseLogLine mediator sys self st ''repeated'' = (self', r)"
    and valid: "GetTimestamp (day st) (MONTH_DICT (lower (month st))) (year_use self') (time st) \<noteq> 0"
  shows "r = Inr [e\<lparr>event_timestamp :=
                     GetTimestamp (day st) (MONTH_DICT (lower (month st))) (year_use self') (time st)\<rparr>] \<and>
         event_computer_name e = computer_name prev \<and> event_agent e = agent prev \<and>
         event_status e = status prev \<and> event_action e = permissive (action prev) \<and>
         previous_structure self1 = Some prev \<and> previous_structure self' = Some prev"
  using res
proof (cases rule: ParseLogLine_cases)
  case returns
  from accepted have first: "resolution_returns mediator0 sys0 self0"
    by (cases rule: ParseLogLine_cases) simp_all
  from returns first show ?thesis
    using assms
    by (auto simp: ParseLogLine_unfold Let_def emit_def MacAppFirewallLogEvent_def
             split: if_splits)
next
  case (raises e)
  with valid show ?thesis by (simp add: GetTimestamp_year_0)
qed

text \<open>
  C4, amended, on the concrete file: the marker of November 29, 22:18:29 after the Dropbox record
  yields the Dropbox event again, with the timestamp of the marker.
\<close>

theorem repeated_line_copies_previous_record_witness:
  "process_lines hint_2013 host init [line_dropbox, line_repeated] =
     (after_line 2013 11 (Some rec_dropbox),
      [dropbox_event 1383365255000000
         [65, 108, 108, 111, 119, 32, 40, 105, 110, 58, 48, 32, 111, 117, 116, 58, 50, 41],
       dropbox_event 1385763509000000
         [65, 108, 108, 111, 119, 32, 40, 105, 110, 58, 48, 32, 111, 117, 116, 58, 50, 41]],
      None) \<and>
   event_computer_name (dropbox_event 1383365255000000
         [65, 108, 108, 111, 119, 32, 40, 105, 110, 58, 48, 32, 111, 117, 116, 58, 50, 41]) =
     computer_name rec_dropbox"
proof -
  have c: "previous_structure (after_line 2013 11 (Some rec_dropbox)) = Some rec_dropbox"
    by (simp add: after_line_def)
  have t: "GetTimestamp (day rec_repeated) (MONTH_DICT (lower (month rec_repeated)))
             (year_use (after_line 2013 11 (Some rec_dropbox))) (time rec_repeated) \<noteq> 0"
    by (simp add: rec_repeated_def after_line_def timestamp_nov29)
  note T = repeated_line_copies_previous_record [OF step_dropbox c step_repeated t]
  have "event_computer_name (dropbox_event 1383365255000000
         [65, 108, 108, 111, 119, 32, 40, 105, 110, 58, 48, 32, 111, 117, 116, 58, 50, 41]) =
        computer_name rec_dropbox"
    using T by (rule_tac conjunct1 [OF conjunct2])
  then show ?thesis
    by (simp add: process_line_def ParseRecord_def tokenized_dropbox tokenized_repeated
                  step_dropbox step_repeated)
qed

text \<open>
  C9. The event of an accepted repeated marker carries the trimmed process name of the
  cached full record. The text that the marker line itself has in the place of the
  process name is not used: whatever it is, the parser object and the event are the same.
\<close>

theorem repeated_line_own_process_name_unused:
  assumes "ParseLogLine mediator sys self st ''repeated'' = (self', Inr [e])"
  shows "\<exists>prev. previous_structure self = Some prev \<and>
           event_process_name e = strip (process_name prev) \<and>
           ParseLogLine mediator sys self (st\<lparr>process_name := p\<rparr>) ''repeated'' =
             (self', Inr [e])"
  using assms
proof (cases rule: ParseLogLine_cases)
  case returns
  then show ?thesis
    using assms
    by (auto simp: ParseLogLine_unfold Let_def emit_def MacAppFirewallLogEvent_def
             split: if_splits option.splits)
next
  case (raises e')
  then show ?thesis by simp
qed

text \<open>
  C9, on the concrete file: the event of the marker has the process name \<open>Dropbox\<close>, not
  \<open>last message repeated 1 time\<close>, and a marker with another text gives the same event.
\<close>

theorem repeated_line_own_process_name_unused_witness:
  "event_process_name (dropbox_event 1385763509000000
      [65, 108, 108, 111, 119, 32, 40, 105, 110, 58, 48, 32, 111, 117, 116, 58, 50, 41]) =
     strip (process_name rec_dropbox) \<and>
   ParseLogLine hint_2013 host (after_line 2013 11 (Some rec_dropbox))
     (rec_repeated\<lparr>process_name := '' last message repeated 7 times ''\<rparr>) ''repeated'' =
     (after_line 2013 11 (Some rec_dropbox),
      Inr [dropbox_event 1385763509000000
             [65, 108, 108, 111, 119, 32, 40, 105, 110, 58, 48, 32, 111, 117, 116, 58, 50, 41]])"
  using repeated_line_own_process_name_unused [OF step_repeated,
          of "'' last message repeated 7 times ''"]
  by (simp add: after_line_def)

section \<open>Month rollover (C5)\<close>




section \<open>Decoding the action (C3)\<close>

text \<open>
  C3, as the specification states it, fails: for the action bytes \<open>A\<close>, \<open>0xFF\<close>, \<open>B\<close> the
  event is emitted, but its action is \<open>AB\<close>; the decoding with a replacement marker would
  be \<open>A\<close>, U+FFFD, \<open>B\<close>.
\<close>

theorem replacement_marker_counterexample:
  "process_line hint_2013 host init line_bad_bytes =
     (after_line 2013 11 (Some rec_bad_bytes), Inr [dropbox_event 1383365256000000 [65, 66]]) \<and>
   decode (action rec_bad_bytes) strict = Inl UnicodeDecodeError \<and>
   decode (action rec_bad_bytes) replace = Inr [65, 65533, 66] \<and>
   Inr (event_action (dropbox_event 1383365256000000 [65, 66])) \<noteq>
     decode (action rec_bad_bytes) replace"
  by (simp add: process_line_def ParseRecord_def tokenized_bad_bytes step_bad_bytes)
     (simp add: rec_bad_bytes_def dropbox_event_def decode_def utf8_code_length_def is_cont_def)

text \<open>
  C3, amended. An accepted full record whose action bytes are not valid UTF-8 still emits
  exactly one event, and the action of the event is the decoding of the bytes in which
  every invalid sequence is left out (the error handler \<open>ignore\<close>), not replaced.
\<close>

theorem invalid_action_bytes_are_ignored:
  assumes "ParseLogLine mediator sys self st ''logline'' = (self', r)"
    and "GetTimestamp (day st) (MONTH_DICT (lower (month st))) (year_use self') (time st) \<noteq> 0"
    and "decode (action st) strict = Inl UnicodeDecodeError"
  shows "\<exists>e. r = Inr [e] \<and> decode (action st) ignore = Inr (event_action e)"
  using assms(1)
proof (cases rule: ParseLogLine_cases)
  case returns
  then show ?thesis
    using assms permissive_invalid [of "action st" UnicodeDecodeError]
    by (auto simp: ParseLogLine_unfold Let_def emit_def MacAppFirewallLogEvent_def
             split: if_splits)
next
  case (raises e)
  with assms(2) show ?thesis by (simp add: GetTimestamp_year_0)
qed

text \<open>
  C3, amended, on the concrete file: the line with the bytes \<open>A\<close>, \<open>0xFF\<close>, \<open>B\<close> yields one
  event, and the \<open>ignore\<close> decoding of the bytes is \<open>AB\<close>.
\<close>

theorem invalid_action_bytes_are_ignored_witness:
  "decode (action rec_bad_bytes) strict = Inl UnicodeDecodeError \<and>
   ParseLogLine hint_2013 host init rec_bad_bytes ''logline'' =
     (after_line 2013 11 (Some rec_bad_bytes), Inr [dropbox_event 1383365256000000 [65, 66]]) \<and>
   decode (action rec_bad_bytes) ignore = Inr [65, 66]"
proof -
  have d: "decode (action rec_bad_bytes) strict = Inl UnicodeDecodeError"
    by (simp add: rec_bad_bytes_def decode_def utf8_code_length_def is_cont_def)
  have t: "GetTimestamp (day rec_bad_bytes) (MONTH_DICT (lower (month rec_bad_bytes)))
             (year_use (after_line 2013 11 (Some rec_bad_bytes))) (time rec_bad_bytes) \<noteq> 0"
    by (simp add: rec_bad_bytes_def after_line_def timestamp_nov2)
  from invalid_action_bytes_are_ignored [OF step_bad_bytes t d]
  have "decode (action rec_bad_bytes) ignore = Inr [65, 66]"
    by (auto simp: dropbox_event_def)
  with d step_bad_bytes show ?thesis by simp
qed

end
